theory Spec2Isabelle
  imports Main "HOL-Library.Sublist"
begin

section \<open>JavaScript values used by the block-type selectors\<close>

text \<open>
  The selectors of \<^verbatim>\<open>packages/blocks/src/store/selectors.js\<close> are pure functions of the
  store state. A JavaScript string is a sequence of UTF-16 code units; it is modelled as a
  list of natural numbers (no arithmetic on code units can overflow here). \<open>ascii\<close>
  writes a string literal of the source.
\<close>

type_synonym jsstring = "nat list"

definition ascii :: "string \<Rightarrow> jsstring" where
  "ascii s = map of_char s"

text \<open>
  Values whose type the source leaves open (icons, block attributes, the \<^verbatim>\<open>supports\<close>
  tree) are JSON-like values. Numbers are the integer-valued ones; a function or component
  is an opaque reference; \<open>JObjectPrototype\<close> is the object \<^verbatim>\<open>Object.prototype\<close>. A property
  that holds \<^verbatim>\<open>undefined\<close> and a property that is not there read the same, and are not
  told apart.
\<close>

datatype jsval =
    JUndefined
  | JNull
  | JBool bool
  | JNum int
  | JStr jsstring
  | JArr "jsval list"
  | JObj "(jsstring \<times> jsval) list"
  | JFun nat
  | JObjectPrototype

text \<open>ToBoolean, as applied by \<^verbatim>\<open>!\<close>, \<^verbatim>\<open>||\<close> and \<^verbatim>\<open>!!\<close>.\<close>

fun truthy :: "jsval \<Rightarrow> bool" where
  "truthy JUndefined = False"
| "truthy JNull = False"
| "truthy (JBool b) = b"
| "truthy (JNum n) = (n \<noteq> 0)"
| "truthy (JStr s) = (s \<noteq> [])"
| "truthy (JArr xs) = True"
| "truthy (JObj kvs) = True"
| "truthy (JFun f) = True"
| "truthy JObjectPrototype = True"

text \<open>
  An optional string property is \<open>None\<close> when it is undefined. The empty string is
  falsy like \<^verbatim>\<open>undefined\<close>; an optional boolean is truthy only when it is
  \<^verbatim>\<open>true\<close>.
\<close>

definition truthyString :: "jsstring option \<Rightarrow> bool" where
  "truthyString s = (case s of None \<Rightarrow> False | Some t \<Rightarrow> t \<noteq> [])"

definition truthyBoolean :: "bool option \<Rightarrow> bool" where
  "truthyBoolean b = (case b of None \<Rightarrow> False | Some c \<Rightarrow> c)"

text \<open>The \<^verbatim>\<open>a || b\<close> of the source, on values and on optional strings.\<close>

definition orElse :: "jsval \<Rightarrow> jsval \<Rightarrow> jsval" where
  "orElse a b = (if truthy a then a else b)"

definition orElseString :: "jsstring option \<Rightarrow> jsstring option \<Rightarrow> jsstring option" where
  "orElseString a b = (if truthyString a then a else b)"

text \<open>
  Reading a property of \<^verbatim>\<open>undefined\<close>, and calling a method that a value does not have,
  throw a TypeError.
\<close>

datatype error = TypeError

section \<open>Members inherited from \<^verbatim>\<open>Object.prototype\<close>\<close>

text \<open>
  The maps of the state are plain objects, and a block name is any string a caller
  passes. \<^verbatim>\<open>object[ key ]\<close> gives the object's own property when it has one, and
  otherwise the member of that name that every plain object inherits from
  \<^verbatim>\<open>Object.prototype\<close>: eleven functions, and the accessor \<^verbatim>\<open>__proto__\<close>, which gives
  \<^verbatim>\<open>Object.prototype\<close> itself. \<open>objectPrototype\<close> is the standard prototype, as it is
  when no script has added to it.
\<close>

definition objectPrototype :: "(jsstring \<times> jsval) list" where
  "objectPrototype =
     [(ascii ''constructor'', JFun 0), (ascii ''hasOwnProperty'', JFun 1),
      (ascii ''isPrototypeOf'', JFun 2), (ascii ''propertyIsEnumerable'', JFun 3),
      (ascii ''toLocaleString'', JFun 4), (ascii ''toString'', JFun 5),
      (ascii ''valueOf'', JFun 6), (ascii ''__defineGetter__'', JFun 7),
      (ascii ''__defineSetter__'', JFun 8), (ascii ''__lookupGetter__'', JFun 9),
      (ascii ''__lookupSetter__'', JFun 10), (ascii ''__proto__'', JObjectPrototype)]"

definition objectPrototypeMember :: "jsstring \<Rightarrow> jsval" where
  "objectPrototypeMember k =
     (case map_of objectPrototype k of None \<Rightarrow> JUndefined | Some m \<Rightarrow> m)"

text \<open>
  What \<^verbatim>\<open>object[ key ]\<close> gives on a map of the state: nothing, the entry stored under
  the key, or an inherited member.
\<close>

datatype 'a entry = Absent | Own 'a | Inherited jsval

definition objectLookup :: "'a option \<Rightarrow> jsstring \<Rightarrow> 'a entry" where
  "objectLookup own k =
     (case own of
        Some x \<Rightarrow> Own x
      | None \<Rightarrow> (case map_of objectPrototype k of None \<Rightarrow> Absent | Some m \<Rightarrow> Inherited m))"

section \<open>Data model\<close>

text \<open>
  A block variation (\<^verbatim>\<open>WPBlockVariation\<close>): the fields the selectors read. A field that
  is not set is \<open>None\<close> (\<open>JUndefined\<close> for the icon). The fields of a variation and of a
  block type are read as own properties: none of their names is a member of a built-in
  prototype.
\<close>

record variation =
  name :: jsstring
  title :: "jsstring option"
  icon :: jsval
  description :: "jsstring option"
  scope :: "jsstring list option"
  isDefault :: "bool option"

text \<open>
  A block type (the field \<^verbatim>\<open>keywords\<close> is written \<open>keywords'\<close>: the bare word is reserved).
  \<^verbatim>\<open>variationMatcher( attributes, variation )\<close> is a function of the
  block's attributes and a variation; its result is used for its truthiness.
\<close>

record blockType =
  name :: jsstring
  title :: "jsstring option"
  icon :: jsval
  description :: "jsstring option"
  category :: "jsstring option"
  keywords' :: "jsstring list option"
  parent :: "jsstring list option"
  supports :: jsval
  variationMatcher :: "(jsval \<Rightarrow> variation \<Rightarrow> jsval) option"

text \<open>The object \<^verbatim>\<open>{ ...blockType, variations }\<close> built by \<^verbatim>\<open>getBlockTypes\<close>.\<close>

record blockTypeWithVariations = blockType +
  variations :: "variation list entry"

text \<open>
  The store state: the own entries of its maps. \<^verbatim>\<open>state.blockTypes\<close> is an object from
  block names to block types; its entries are listed in the object's enumeration order.
  \<^verbatim>\<open>state.blockStyles\<close> and \<^verbatim>\<open>state.blockVariations\<close> are only read by key.
\<close>

record state =
  blockTypes :: "(jsstring \<times> blockType) list"
  blockStyles :: "jsstring \<rightharpoonup> jsval list"
  blockVariations :: "jsstring \<rightharpoonup> variation list"


section \<open>The host\<close>

text \<open>
  Two built-ins of the JavaScript host are too large to write out and differ between
  versions of the language; they are parameters of the model, and every theorem holds
  for every host. \<open>builtinMember h v k\<close> is what \<^verbatim>\<open>v[ k ]\<close> gives for a boolean, number,
  string, array or function \<open>v\<close> beyond the own properties written out in
  \<open>ownProperty\<close>: the member of that name on the built-in prototype chain of \<open>v\<close> and,
  for a function, its own properties (\<open>JUndefined\<close> when there is none).
  \<open>hostToLowerCase h\<close> is \<^verbatim>\<open>String.prototype.toLowerCase\<close> on the strings for which it
  is not written out below.
\<close>

record host =
  builtinMember :: "jsval \<Rightarrow> jsstring \<Rightarrow> jsval"
  hostToLowerCase :: "jsstring \<Rightarrow> jsstring"

section \<open>Library functions the selectors call\<close>

text \<open>\<^verbatim>\<open>Array.prototype.includes\<close> on an array of strings: a linear scan.\<close>

fun arrayIncludes :: "jsstring list \<Rightarrow> jsstring option \<Rightarrow> bool" where
  "arrayIncludes [] x = False"
| "arrayIncludes (y # ys) x = (if Some y = x then True else arrayIncludes ys x)"

text \<open>
  lodash \<^verbatim>\<open>findLast( collection, predicate )\<close> on an array: the index runs down from the
  length, the result is \<^verbatim>\<open>index > -1 ? collection[ index ] : undefined\<close>. An undefined
  collection has length 0. A collection that is not array-like is searched through its
  own enumerable keys; an inherited member (a built-in function or \<^verbatim>\<open>Object.prototype\<close>)
  is not array-like for lodash and has no enumerable key, so nothing is found.
\<close>

fun baseFindIndexFromRight :: "('a \<Rightarrow> bool) \<Rightarrow> 'a list \<Rightarrow> nat \<Rightarrow> int" where
  "baseFindIndexFromRight p xs 0 = - 1"
| "baseFindIndexFromRight p xs (Suc i) =
     (if p (xs ! i) then int i else baseFindIndexFromRight p xs i)"

definition findLast :: "'a list entry \<Rightarrow> ('a \<Rightarrow> bool) \<Rightarrow> 'a option" where
  "findLast collection p =
     (case collection of
        Absent \<Rightarrow> None
      | Inherited m \<Rightarrow> None
      | Own xs \<Rightarrow>
          (let index = baseFindIndexFromRight p xs (length xs)
           in if index > - 1 then Some (xs ! nat index) else None))"

text \<open>
  lodash \<^verbatim>\<open>first( array )\<close>: \<^verbatim>\<open>( array && array.length ) ? array[ 0 ] : undefined\<close>. An
  inherited member has no property \<^verbatim>\<open>0\<close>, whatever its \<^verbatim>\<open>length\<close>.
\<close>

definition first :: "'a list entry \<Rightarrow> 'a option" where
  "first array =
     (case array of
        Absent \<Rightarrow> None
      | Inherited m \<Rightarrow> None
      | Own [] \<Rightarrow> None
      | Own (x # xs) \<Rightarrow> Some x)"

section \<open>Type and variation accessors\<close>

text \<open>\<^verbatim>\<open>state.blockTypes[ name ]\<close> and \<^verbatim>\<open>state.blockStyles[ name ]\<close>.\<close>

definition getBlockType :: "state \<Rightarrow> jsstring \<Rightarrow> blockType entry" where
  "getBlockType st blockName = objectLookup (map_of (blockTypes st) blockName) blockName"

definition getBlockStyles :: "state \<Rightarrow> jsstring \<Rightarrow> jsval list entry" where
  "getBlockStyles st blockName = objectLookup (blockStyles st blockName) blockName"

text \<open>
  \<^verbatim>\<open>( variation.scope || [ 'block', 'inserter' ] )\<close>: an array, even an empty one, is
  truthy.
\<close>

definition scopeOrDefault :: "variation \<Rightarrow> jsstring list" where
  "scopeOrDefault v =
     (case scope v of
        None \<Rightarrow> [ascii ''block'', ascii ''inserter'']
      | Some sc \<Rightarrow> sc)"

text \<open>
  \<^verbatim>\<open>getBlockVariations( state, blockName, scope )\<close>. The optional \<open>scope\<close> is \<open>None\<close>
  when the argument is not passed. Behind the guard \<^verbatim>\<open>! variations || ! scope\<close> the
  source calls \<^verbatim>\<open>variations.filter\<close>: an inherited member is truthy and passes the
  guard, but it is a function or \<^verbatim>\<open>Object.prototype\<close> and has no method \<^verbatim>\<open>filter\<close>,
  so the call throws.
\<close>

definition getBlockVariations ::
  "state \<Rightarrow> jsstring \<Rightarrow> jsstring option \<Rightarrow> error + variation list entry" where
  "getBlockVariations st blockName scp =
     (let vars = objectLookup (blockVariations st blockName) blockName
      in if vars = Absent \<or> \<not> truthyString scp then Inr vars
         else (case vars of
                 Own vs \<Rightarrow> Inr (Own (filter (\<lambda>v. arrayIncludes (scopeOrDefault v) scp) vs))
               | Inherited m \<Rightarrow> Inl TypeError
               | Absent \<Rightarrow> Inl TypeError))"

text \<open>
  \<^verbatim>\<open>findLast( variations, 'isDefault' ) || first( variations )\<close>: the property shorthand
  tests the truthiness of \<^verbatim>\<open>variation.isDefault\<close>; a variation that is found is an
  object, hence truthy.
\<close>

definition getDefaultBlockVariation ::
  "state \<Rightarrow> jsstring \<Rightarrow> jsstring option \<Rightarrow> error + variation option" where
  "getDefaultBlockVariation st blockName scp =
     (case getBlockVariations st blockName scp of
        Inl e \<Rightarrow> Inl e
      | Inr vars \<Rightarrow>
          Inr (case findLast vars (\<lambda>v. truthyBoolean (isDefault v)) of
                 Some v \<Rightarrow> Some v
               | None \<Rightarrow> first vars))"

text \<open>
  \<^verbatim>\<open>getBlockDisplayInformation( state, name, attributes )\<close>. \<^verbatim>\<open>blockType.title\<close> is
  read before anything is tested, so a name for which the lookup gives \<^verbatim>\<open>undefined\<close>
  throws. An inherited member has no title, icon, description or matcher. A function is
  truthy, so \<^verbatim>\<open>! blockType?.variationMatcher\<close> holds exactly when there is no matcher.
  \<^verbatim>\<open>Array.prototype.find\<close> is \<open>find\<close>: the first element whose callback result is
  truthy; an inherited member in the place of the variations has no method \<^verbatim>\<open>find\<close>.
\<close>

record blockDisplayInformation =
  title :: "jsstring option"
  icon :: jsval
  description :: "jsstring option"

definition getBlockDisplayInformation ::
  "state \<Rightarrow> jsstring \<Rightarrow> jsval \<Rightarrow> error + blockDisplayInformation" where
  "getBlockDisplayInformation st blockName attributes =
     (let vars = objectLookup (blockVariations st blockName) blockName
      in case getBlockType st blockName of
           Absent \<Rightarrow> Inl TypeError
         | Inherited m \<Rightarrow>
             Inr \<lparr> blockDisplayInformation.title = None, icon = JUndefined,
                   description = None \<rparr>
         | Own bt \<Rightarrow>
             (let blockTypeInfo =
                    \<lparr> blockDisplayInformation.title = blockType.title bt,
                      icon = blockType.icon bt,
                      description = blockType.description bt \<rparr>
              in case vars of
                   Absent \<Rightarrow> Inr blockTypeInfo
                 | Inherited m \<Rightarrow>
                     (case variationMatcher bt of
                        None \<Rightarrow> Inr blockTypeInfo
                      | Some matcher \<Rightarrow> Inl TypeError)
                 | Own vs \<Rightarrow>
                     (case variationMatcher bt of
                        None \<Rightarrow> Inr blockTypeInfo
                      | Some matcher \<Rightarrow>
                          (case find (\<lambda>v. truthy (matcher attributes v)) vs of
                             None \<Rightarrow> Inr blockTypeInfo
                           | Some match \<Rightarrow>
                               Inr \<lparr> blockDisplayInformation.title =
                                       orElseString (variation.title match) (blockType.title bt),
                                     icon = orElse (variation.icon match) (blockType.icon bt),
                                     description =
                                       orElseString (variation.description match)
                                         (blockType.description bt) \<rparr>))))"

text \<open>
  \<^verbatim>\<open>getBlockTypes\<close>: \<^verbatim>\<open>Object.values( state.blockTypes ).map( ... )\<close>, over the own
  entries. The selector is wrapped in rememo's \<^verbatim>\<open>createSelector\<close>, which caches the
  result per state reference and returns what the wrapped function returns; the cache is
  not modelled.
\<close>

fun mapE :: "('a \<Rightarrow> error + 'b) \<Rightarrow> 'a list \<Rightarrow> error + 'b list" where
  "mapE f [] = Inr []"
| "mapE f (x # xs) =
     (case f x of
        Inl e \<Rightarrow> Inl e
      | Inr y \<Rightarrow> (case mapE f xs of Inl e \<Rightarrow> Inl e | Inr ys \<Rightarrow> Inr (y # ys)))"

definition objectValues :: "('k \<times> 'v) list \<Rightarrow> 'v list" where
  "objectValues obj = map snd obj"

definition withVariations :: "blockType \<Rightarrow> variation list entry \<Rightarrow> blockTypeWithVariations" where
  "withVariations bt vars = blockType.extend bt (blockTypeWithVariations.fields vars)"

definition getBlockTypes :: "state \<Rightarrow> error + blockTypeWithVariations list" where
  "getBlockTypes st =
     mapE (\<lambda>bt. case getBlockVariations st (blockType.name bt) None of
                   Inl e \<Rightarrow> Inl e
                 | Inr vars \<Rightarrow> Inr (withVariations bt vars))
          (objectValues (blockTypes st))"

section \<open>Child-block relationships\<close>

text \<open>
  lodash \<^verbatim>\<open>includes( collection, value )\<close> on an array or \<^verbatim>\<open>undefined\<close>:
  \<^verbatim>\<open>baseIndexOf( collection, value, 0 ) > -1\<close>, and \<^verbatim>\<open>undefined\<close> has no values.
\<close>

fun baseIndexOf :: "'a list \<Rightarrow> 'a \<Rightarrow> nat \<Rightarrow> int" where
  "baseIndexOf [] v i = - 1"
| "baseIndexOf (x # xs) v i = (if x = v then int i else baseIndexOf xs v (Suc i))"

definition lodashIncludes :: "'a list option \<Rightarrow> 'a \<Rightarrow> bool" where
  "lodashIncludes collection v =
     (case collection of None \<Rightarrow> False | Some xs \<Rightarrow> baseIndexOf xs v 0 > - 1)"

text \<open>
  \<^verbatim>\<open>getChildBlockNames\<close>: lodash \<^verbatim>\<open>filter\<close> over the own values of the object, then
  \<^verbatim>\<open>map\<close> to the \<^verbatim>\<open>name\<close> field (again behind \<^verbatim>\<open>createSelector\<close>).
\<close>

definition getChildBlockNames :: "state \<Rightarrow> jsstring \<Rightarrow> jsstring list" where
  "getChildBlockNames st blockName =
     map blockType.name
       (filter (\<lambda>bt. lodashIncludes (parent bt) blockName) (objectValues (blockTypes st)))"

definition hasChildBlocks :: "state \<Rightarrow> jsstring \<Rightarrow> bool" where
  "hasChildBlocks st blockName = (length (getChildBlockNames st blockName) > 0)"

section \<open>Support introspection\<close>

text \<open>
  \<^verbatim>\<open>feature.split( '.' )\<close>: the pieces between the separators; always at least one
  piece, and \<^verbatim>\<open>''\<close> splits into \<^verbatim>\<open>[ '' ]\<close>.
\<close>

fun split :: "nat \<Rightarrow> jsstring \<Rightarrow> jsstring list" where
  "split sep [] = [[]]"
| "split sep (c # cs) =
     (if c = sep then [] # split sep cs
      else (case split sep cs of [] \<Rightarrow> [[c]] | w # ws \<Rightarrow> (c # w) # ws))"

text \<open>
  An array index is a canonical numeric string: decimal digits without a leading zero.
\<close>

fun digitsValue :: "nat \<Rightarrow> jsstring \<Rightarrow> nat option" where
  "digitsValue acc [] = Some acc"
| "digitsValue acc (c # cs) =
     (if 48 \<le> c \<and> c \<le> 57 then digitsValue (10 * acc + (c - 48)) cs else None)"

definition arrayIndex :: "jsstring \<Rightarrow> nat option" where
  "arrayIndex k =
     (case k of
        [] \<Rightarrow> None
      | c # cs \<Rightarrow> if c = 48 \<and> cs \<noteq> [] then None else digitsValue 0 k)"

text \<open>
  The own properties of a value: the properties of an object, the elements and the length
  of an array or string.
\<close>

fun ownProperty :: "jsval \<Rightarrow> jsstring \<Rightarrow> jsval option" where
  "ownProperty (JObj kvs) k = map_of kvs k"
| "ownProperty (JArr xs) k =
     (if k = ascii ''length'' then Some (JNum (int (length xs)))
      else (case arrayIndex k of
              None \<Rightarrow> None
            | Some i \<Rightarrow> if i < length xs then Some (xs ! i) else None))"
| "ownProperty (JStr s) k =
     (if k = ascii ''length'' then Some (JNum (int (length s)))
      else (case arrayIndex k of
              None \<Rightarrow> None
            | Some i \<Rightarrow> if i < length s then Some (JStr [s ! i]) else None))"
| "ownProperty v k = None"

text \<open>
  What a value without an own property \<open>k\<close> gives for \<open>k\<close>: a plain object the member of
  \<^verbatim>\<open>Object.prototype\<close>, \<^verbatim>\<open>Object.prototype\<close> its own members (its \<^verbatim>\<open>__proto__\<close> is
  \<^verbatim>\<open>null\<close>), every other value what the host's built-in prototypes give it.
\<close>

fun inheritedMember :: "host \<Rightarrow> jsval \<Rightarrow> jsstring \<Rightarrow> jsval" where
  "inheritedMember h (JObj kvs) k = objectPrototypeMember k"
| "inheritedMember h JObjectPrototype k =
     (if k = ascii ''__proto__'' then JNull else objectPrototypeMember k)"
| "inheritedMember h JUndefined k = JUndefined"
| "inheritedMember h JNull k = JUndefined"
| "inheritedMember h v k = builtinMember h v k"

text \<open>
  \<^verbatim>\<open>object[ key ]\<close> on a value that is neither \<^verbatim>\<open>null\<close> nor \<^verbatim>\<open>undefined\<close>: the own
  property, and otherwise the inherited member. (lodash never reads a property of
  \<^verbatim>\<open>null\<close> or \<^verbatim>\<open>undefined\<close>.)
\<close>

definition readProperty :: "host \<Rightarrow> jsval \<Rightarrow> jsstring \<Rightarrow> jsval" where
  "readProperty h v k =
     (case ownProperty v k of Some x \<Rightarrow> x | None \<Rightarrow> inheritedMember h v k)"

definition nullish :: "jsval \<Rightarrow> bool" where
  "nullish v = (v = JUndefined \<or> v = JNull)"

text \<open>
  lodash \<^verbatim>\<open>baseGet( object, path )\<close>:
  \<^verbatim>\<open>while ( object != null && index < length ) object = object[ path[ index++ ] ];\<close>
  \<^verbatim>\<open>return ( index && index == length ) ? object : undefined;\<close>
\<close>

function baseGet :: "host \<Rightarrow> jsval \<Rightarrow> jsstring list \<Rightarrow> nat \<Rightarrow> jsval" where
  "baseGet h object path index =
     (if \<not> nullish object \<and> index < length path
      then baseGet h (readProperty h object (path ! index)) path (Suc index)
      else if index \<noteq> 0 \<and> index = length path then object else JUndefined)"
  by pat_completeness auto

termination baseGet
  by (relation "measure (\<lambda>(h, object, path, index). length path - index)") auto

text \<open>
  lodash \<^verbatim>\<open>get( object, path, defaultValue )\<close>:
  \<^verbatim>\<open>result = object == null ? undefined : baseGet( object, path )\<close>, and the default
  replaces an \<^verbatim>\<open>undefined\<close> result.
\<close>

definition get :: "host \<Rightarrow> jsval \<Rightarrow> jsstring list \<Rightarrow> jsval \<Rightarrow> jsval" where
  "get h object path defaultValue =
     (let result = (if nullish object then JUndefined else baseGet h object path 0)
      in if result = JUndefined then defaultValue else result)"

text \<open>
  \<^verbatim>\<open>getNormalizedBlockType\<close>: a name is looked up, a block type object is used as it is.
\<close>

datatype nameOrType = Name jsstring | Type blockType

definition getNormalizedBlockType :: "state \<Rightarrow> nameOrType \<Rightarrow> blockType entry" where
  "getNormalizedBlockType st nameOrType =
     (case nameOrType of Name n \<Rightarrow> getBlockType st n | Type bt \<Rightarrow> Own bt)"

text \<open>
  The path given to \<^verbatim>\<open>get\<close> starts with the literal \<^verbatim>\<open>'supports'\<close>, so of a block type
  object only that property is read; \<open>blockTypeObject\<close> is what \<^verbatim>\<open>get\<close> is given:
  \<^verbatim>\<open>undefined\<close>, the block type as an object, or an inherited member.
\<close>

definition blockTypeObject :: "blockType entry \<Rightarrow> jsval" where
  "blockTypeObject bt =
     (case bt of
        Absent \<Rightarrow> JUndefined
      | Own b \<Rightarrow> JObj [(ascii ''supports'', supports b)]
      | Inherited m \<Rightarrow> m)"

definition getBlockSupport ::
  "host \<Rightarrow> state \<Rightarrow> nameOrType \<Rightarrow> jsstring \<Rightarrow> jsval \<Rightarrow> jsval" where
  "getBlockSupport h st nameOrType feature defaultSupports =
     (let bt = getNormalizedBlockType st nameOrType
      in get h (blockTypeObject bt) (ascii ''supports'' # split 46 feature) defaultSupports)"

definition hasBlockSupport ::
  "host \<Rightarrow> state \<Rightarrow> nameOrType \<Rightarrow> jsstring \<Rightarrow> jsval \<Rightarrow> bool" where
  "hasBlockSupport h st nameOrType feature defaultSupports =
     truthy (getBlockSupport h st nameOrType feature defaultSupports)"

text \<open>lodash \<^verbatim>\<open>some( collection, predicate )\<close>: stops at the first truthy result.\<close>

fun arraySome :: "'a list \<Rightarrow> ('a \<Rightarrow> bool) \<Rightarrow> bool" where
  "arraySome [] p = False"
| "arraySome (x # xs) p = (if p x then True else arraySome xs p)"

definition some :: "'a list option \<Rightarrow> ('a \<Rightarrow> bool) \<Rightarrow> bool" where
  "some collection p = (case collection of None \<Rightarrow> False | Some xs \<Rightarrow> arraySome xs p)"


section \<open>Search matching\<close>

text \<open>
  lodash \<^verbatim>\<open>deburr\<close> (4.17): the argument goes through \<^verbatim>\<open>toString\<close> (\<^verbatim>\<open>undefined\<close> gives
  \<^verbatim>\<open>''\<close>), every code unit of the class
  \<^verbatim>\<open>[\xc0-\xd6\xd8-\xf6\xf8-\xff\u0100-\u017f]\<close> is replaced by its entry of
  \<^verbatim>\<open>deburredLetters\<close>, and every combining mark
  \<^verbatim>\<open>[\u0300-\u036f\ufe20-\ufe2f\u20d0-\u20ff]\<close> is removed.
\<close>

definition deburredLetters :: "(nat \<times> jsstring) list" where
  "deburredLetters =
     [(0xC0, ascii ''A''), (0xC1, ascii ''A''), (0xC2, ascii ''A''), (0xC3, ascii ''A''), (0xC4, ascii ''A''), (0xC5, ascii ''A''),
      (0xE0, ascii ''a''), (0xE1, ascii ''a''), (0xE2, ascii ''a''), (0xE3, ascii ''a''), (0xE4, ascii ''a''), (0xE5, ascii ''a''),
      (0xC7, ascii ''C''), (0xE7, ascii ''c''),
      (0xD0, ascii ''D''), (0xF0, ascii ''d''),
      (0xC8, ascii ''E''), (0xC9, ascii ''E''), (0xCA, ascii ''E''), (0xCB, ascii ''E''),
      (0xE8, ascii ''e''), (0xE9, ascii ''e''), (0xEA, ascii ''e''), (0xEB, ascii ''e''),
      (0xCC, ascii ''I''), (0xCD, ascii ''I''), (0xCE, ascii ''I''), (0xCF, ascii ''I''),
      (0xEC, ascii ''i''), (0xED, ascii ''i''), (0xEE, ascii ''i''), (0xEF, ascii ''i''),
      (0xD1, ascii ''N''), (0xF1, ascii ''n''),
      (0xD2, ascii ''O''), (0xD3, ascii ''O''), (0xD4, ascii ''O''), (0xD5, ascii ''O''), (0xD6, ascii ''O''), (0xD8, ascii ''O''),
      (0xF2, ascii ''o''), (0xF3, ascii ''o''), (0xF4, ascii ''o''), (0xF5, ascii ''o''), (0xF6, ascii ''o''), (0xF8, ascii ''o''),
      (0xD9, ascii ''U''), (0xDA, ascii ''U''), (0xDB, ascii ''U''), (0xDC, ascii ''U''),
      (0xF9, ascii ''u''), (0xFA, ascii ''u''), (0xFB, ascii ''u''), (0xFC, ascii ''u''),
      (0xDD, ascii ''Y''), (0xFD, ascii ''y''), (0xFF, ascii ''y''),
      (0xC6, ascii ''Ae''), (0xE6, ascii ''ae''),
      (0xDE, ascii ''Th''), (0xFE, ascii ''th''),
      (0xDF, ascii ''ss''),
      (0x100, ascii ''A''), (0x102, ascii ''A''), (0x104, ascii ''A''),
      (0x101, ascii ''a''), (0x103, ascii ''a''), (0x105, ascii ''a''),
      (0x106, ascii ''C''), (0x108, ascii ''C''), (0x10A, ascii ''C''), (0x10C, ascii ''C''),
      (0x107, ascii ''c''), (0x109, ascii ''c''), (0x10B, ascii ''c''), (0x10D, ascii ''c''),
      (0x10E, ascii ''D''), (0x110, ascii ''D''), (0x10F, ascii ''d''), (0x111, ascii ''d''),
      (0x112, ascii ''E''), (0x114, ascii ''E''), (0x116, ascii ''E''), (0x118, ascii ''E''), (0x11A, ascii ''E''),
      (0x113, ascii ''e''), (0x115, ascii ''e''), (0x117, ascii ''e''), (0x119, ascii ''e''), (0x11B, ascii ''e''),
      (0x11C, ascii ''G''), (0x11E, ascii ''G''), (0x120, ascii ''G''), (0x122, ascii ''G''),
      (0x11D, ascii ''g''), (0x11F, ascii ''g''), (0x121, ascii ''g''), (0x123, ascii ''g''),
      (0x124, ascii ''H''), (0x126, ascii ''H''), (0x125, ascii ''h''), (0x127, ascii ''h''),
      (0x128, ascii ''I''), (0x12A, ascii ''I''), (0x12C, ascii ''I''), (0x12E, ascii ''I''), (0x130, ascii ''I''),
      (0x129, ascii ''i''), (0x12B, ascii ''i''), (0x12D, ascii ''i''), (0x12F, ascii ''i''), (0x131, ascii ''i''),
      (0x134, ascii ''J''), (0x135, ascii ''j''),
      (0x136, ascii ''K''), (0x137, ascii ''k''), (0x138, ascii ''k''),
      (0x139, ascii ''L''), (0x13B, ascii ''L''), (0x13D, ascii ''L''), (0x13F, ascii ''L''), (0x141, ascii ''L''),
      (0x13A, ascii ''l''), (0x13C, ascii ''l''), (0x13E, ascii ''l''), (0x140, ascii ''l''), (0x142, ascii ''l''),
      (0x143, ascii ''N''), (0x145, ascii ''N''), (0x147, ascii ''N''), (0x14A, ascii ''N''),
      (0x144, ascii ''n''), (0x146, ascii ''n''), (0x148, ascii ''n''), (0x14B, ascii ''n''),
      (0x14C, ascii ''O''), (0x14E, ascii ''O''), (0x150, ascii ''O''),
      (0x14D, ascii ''o''), (0x14F, ascii ''o''), (0x151, ascii ''o''),
      (0x154, ascii ''R''), (0x156, ascii ''R''), (0x158, ascii ''R''),
      (0x155, ascii ''r''), (0x157, ascii ''r''), (0x159, ascii ''r''),
      (0x15A, ascii ''S''), (0x15C, ascii ''S''), (0x15E, ascii ''S''), (0x160, ascii ''S''),
      (0x15B, ascii ''s''), (0x15D, ascii ''s''), (0x15F, ascii ''s''), (0x161, ascii ''s''),
      (0x162, ascii ''T''), (0x164, ascii ''T''), (0x166, ascii ''T''),
      (0x163, ascii ''t''), (0x165, ascii ''t''), (0x167, ascii ''t''),
      (0x168, ascii ''U''), (0x16A, ascii ''U''), (0x16C, ascii ''U''), (0x16E, ascii ''U''), (0x170, ascii ''U''), (0x172, ascii ''U''),
      (0x169, ascii ''u''), (0x16B, ascii ''u''), (0x16D, ascii ''u''), (0x16F, ascii ''u''), (0x171, ascii ''u''), (0x173, ascii ''u''),
      (0x174, ascii ''W''), (0x175, ascii ''w''),
      (0x176, ascii ''Y''), (0x177, ascii ''y''), (0x178, ascii ''Y''),
      (0x179, ascii ''Z''), (0x17B, ascii ''Z''), (0x17D, ascii ''Z''),
      (0x17A, ascii ''z''), (0x17C, ascii ''z''), (0x17E, ascii ''z''),
      (0x132, ascii ''IJ''), (0x133, ascii ''ij''),
      (0x152, ascii ''Oe''), (0x153, ascii ''oe''),
      (0x149, [39, 110]), (0x17F, ascii ''s'')]"

definition reLatin :: "nat \<Rightarrow> bool" where
  "reLatin c =
     ((0xC0 \<le> c \<and> c \<le> 0xD6) \<or> (0xD8 \<le> c \<and> c \<le> 0xF6) \<or>
      (0xF8 \<le> c \<and> c \<le> 0xFF) \<or> (0x100 \<le> c \<and> c \<le> 0x17F))"

definition reComboMark :: "nat \<Rightarrow> bool" where
  "reComboMark c =
     ((0x300 \<le> c \<and> c \<le> 0x36F) \<or> (0xFE20 \<le> c \<and> c \<le> 0xFE2F) \<or>
      (0x20D0 \<le> c \<and> c \<le> 0x20FF))"

text \<open>
  \<^verbatim>\<open>deburrLetter\<close> is \<^verbatim>\<open>basePropertyOf( deburredLetters )\<close>; a replacement callback that
  returns \<^verbatim>\<open>undefined\<close> would insert the text \<^verbatim>\<open>undefined\<close> (the table has an entry
  for every code unit of the class).
\<close>

definition deburrLetter :: "nat \<Rightarrow> jsstring" where
  "deburrLetter c =
     (case map_of deburredLetters c of None \<Rightarrow> ascii ''undefined'' | Some r \<Rightarrow> r)"

definition deburr :: "jsstring option \<Rightarrow> jsstring" where
  "deburr string =
     (let str = (case string of None \<Rightarrow> [] | Some t \<Rightarrow> t)
      in filter (\<lambda>c. \<not> reComboMark c)
           (concat (map (\<lambda>c. if reLatin c then deburrLetter c else [c]) str)))"

text \<open>
  The white space and line terminators of ECMAScript, which
  \<^verbatim>\<open>String.prototype.trim\<close> removes from both ends.
\<close>

definition isWhiteSpace :: "nat \<Rightarrow> bool" where
  "isWhiteSpace c =
     ((0x09 \<le> c \<and> c \<le> 0x0D) \<or> c = 0x20 \<or> c = 0xA0 \<or> c = 0x1680 \<or>
      (0x2000 \<le> c \<and> c \<le> 0x200A) \<or> c = 0x2028 \<or> c = 0x2029 \<or> c = 0x202F \<or>
      c = 0x205F \<or> c = 0x3000 \<or> c = 0xFEFF)"

definition trim :: "jsstring \<Rightarrow> jsstring" where
  "trim s = rev (dropWhile isWhiteSpace (rev (dropWhile isWhiteSpace s)))"

text \<open>
  \<^verbatim>\<open>String.prototype.toLowerCase\<close>. On a string made only of code units of Basic Latin,
  of the Latin-1 Supplement and of white space it works code unit by code unit: the
  capital letters of the two blocks move up by \<^verbatim>\<open>0x20\<close>, and every other such code unit
  is unchanged. On every other string (other scripts, with their context rules and
  surrogate pairs) it is the host's function.
\<close>

definition lowerCaseUnit :: "nat \<Rightarrow> nat" where
  "lowerCaseUnit c =
     (if (0x41 \<le> c \<and> c \<le> 0x5A) \<or> (0xC0 \<le> c \<and> c \<le> 0xD6) \<or> (0xD8 \<le> c \<and> c \<le> 0xDE)
      then c + 0x20 else c)"

definition latinOrWhiteSpace :: "nat \<Rightarrow> bool" where
  "latinOrWhiteSpace c = (c < 0x100 \<or> isWhiteSpace c)"

definition toLowerCase :: "host \<Rightarrow> jsstring \<Rightarrow> jsstring" where
  "toLowerCase h s =
     (if list_all latinOrWhiteSpace s then map lowerCaseUnit s else hostToLowerCase h s)"

text \<open>
  \<^verbatim>\<open>String.prototype.indexOf( searchString, 0 )\<close>: the least position at which
  \<open>searchString\<close> starts, or -1. lodash \<^verbatim>\<open>includes( string, value )\<close> is
  \<^verbatim>\<open>fromIndex <= length && collection.indexOf( value, fromIndex ) > -1\<close> with
  \<^verbatim>\<open>fromIndex\<close> 0.
\<close>

fun indexOfFrom :: "jsstring \<Rightarrow> jsstring \<Rightarrow> nat \<Rightarrow> int" where
  "indexOfFrom [] searchString k = (if searchString = [] then int k else - 1)"
| "indexOfFrom (c # cs) searchString k =
     (if prefix searchString (c # cs) then int k else indexOfFrom cs searchString (Suc k))"

definition lodashIncludesString :: "jsstring \<Rightarrow> jsstring \<Rightarrow> bool" where
  "lodashIncludesString collection v =
     ((0::nat) \<le> length collection \<and> indexOfFrom collection v 0 > - 1)"

text \<open>
  \<^verbatim>\<open>getNormalizedSearchTerm = flow( [ deburr, toLowerCase, trim ] )\<close>, applied to the
  search term and, inside \<^verbatim>\<open>isSearchMatch\<close>, to every candidate.
\<close>

definition getNormalizedSearchTerm :: "host \<Rightarrow> jsstring option \<Rightarrow> jsstring" where
  "getNormalizedSearchTerm h t = trim (toLowerCase h (deburr t))"

definition isSearchMatch :: "host \<Rightarrow> jsstring \<Rightarrow> jsstring option \<Rightarrow> bool" where
  "isSearchMatch h normalizedSearchTerm candidate =
     lodashIncludesString (getNormalizedSearchTerm h candidate) normalizedSearchTerm"

text \<open>
  \<^verbatim>\<open>isMatchingSearchTerm( state, nameOrType, searchTerm )\<close>. \<^verbatim>\<open>blockType.title\<close> is the
  first read on the block type, so a name for which the lookup gives \<^verbatim>\<open>undefined\<close>
  throws; an inherited member has no title, keywords or category. \<^verbatim>\<open>||\<close> evaluates
  from left to right and stops at the first \<^verbatim>\<open>true\<close>.
\<close>

definition isMatchingSearchTerm ::
  "host \<Rightarrow> state \<Rightarrow> nameOrType \<Rightarrow> jsstring \<Rightarrow> error + bool" where
  "isMatchingSearchTerm h st nameOrType searchTerm =
     (let normalizedSearchTerm = getNormalizedSearchTerm h (Some searchTerm)
      in case getNormalizedBlockType st nameOrType of
           Absent \<Rightarrow> Inl TypeError
         | Inherited m \<Rightarrow>
             Inr (if isSearchMatch h normalizedSearchTerm None then True
                  else if some None (\<lambda>k. isSearchMatch h normalizedSearchTerm (Some k))
                  then True
                  else isSearchMatch h normalizedSearchTerm None)
         | Own bt \<Rightarrow>
             Inr (if isSearchMatch h normalizedSearchTerm (blockType.title bt) then True
                  else if some (keywords' bt)
                            (\<lambda>k. isSearchMatch h normalizedSearchTerm (Some k))
                  then True
                  else isSearchMatch h normalizedSearchTerm (category bt)))"

section \<open>The specification's reading of the support lookup\<close>


fun nestedRead :: "host \<Rightarrow> jsval \<Rightarrow> jsstring list \<Rightarrow> jsval option" where
  "nestedRead h tree [] = Some tree"
| "nestedRead h tree (k # ks) =
     (let child = (case ownProperty tree k of
                     Some own \<Rightarrow> own
                   | None \<Rightarrow> inheritedMember h tree k)
      in if child = JUndefined then None else nestedRead h child ks)"

section \<open>An example registry\<close>

text \<open>
  Three variations of one block: two flagged as default, the first without a declared
  scope.
\<close>

definition variationA :: variation where
  "variationA =
     \<lparr> variation.name = ascii ''a'', title = Some (ascii ''A''), icon = JUndefined,
       description = None, scope = None, isDefault = Some True \<rparr>"

definition variationB :: variation where
  "variationB =
     \<lparr> variation.name = ascii ''b'', title = Some (ascii ''B''), icon = JUndefined,
       description = None, scope = Some [ascii ''transform''], isDefault = Some True \<rparr>"

definition variationC :: variation where
  "variationC =
     \<lparr> variation.name = ascii ''c'', title = Some (ascii ''C''), icon = JUndefined,
       description = None, scope = Some [ascii ''block''], isDefault = None \<rparr>"

text \<open>
  Two variations of an embed block: one that sets its title and nothing else, and one
  whose title is the empty string. The matcher compares an attribute with the
  variation's name.
\<close>

definition variationTwitter :: variation where
  "variationTwitter =
     \<lparr> variation.name = ascii ''twitter'', title = Some (ascii ''Twitter''), icon = JUndefined,
       description = None, scope = None, isDefault = None \<rparr>"

definition variationUntitled :: variation where
  "variationUntitled =
     \<lparr> variation.name = ascii ''youtube'', title = Some [], icon = JStr (ascii ''video''),
       description = Some (ascii ''A video''), scope = None, isDefault = None \<rparr>"

definition matchByName :: "jsval \<Rightarrow> variation \<Rightarrow> jsval" where
  "matchByName attributes v =
     JBool (ownProperty attributes (ascii ''providerNameSlug'') = Some (JStr (variation.name v)))"

definition attributesOf :: "string \<Rightarrow> jsval" where
  "attributesOf slug = JObj [(ascii ''providerNameSlug'', JStr (ascii slug))]"

definition embedBlock :: blockType where
  "embedBlock =
     \<lparr> blockType.name = ascii ''core/embed'', title = Some (ascii ''Embed''),
       icon = JStr (ascii ''embed''), description = Some (ascii ''Embedded content''),
       category = Some (ascii ''embed''), keywords' = None, parent = None,
       supports = JUndefined, variationMatcher = Some matchByName \<rparr>"

definition columnsBlock :: blockType where
  "columnsBlock =
     \<lparr> blockType.name = ascii ''core/columns'', title = Some (ascii ''Columns''),
       icon = JUndefined, description = None, category = Some (ascii ''design''),
       keywords' = None, parent = None, supports = JObj [], variationMatcher = None \<rparr>"

definition columnBlock :: blockType where
  "columnBlock =
     \<lparr> blockType.name = ascii ''core/column'', title = Some (ascii ''Column''),
       icon = JUndefined, description = None, category = Some (ascii ''design''),
       keywords' = None, parent = Some [ascii ''core/columns''],
       supports = JObj [(ascii ''inserter'', JBool False)], variationMatcher = None \<rparr>"

definition imageBlock :: blockType where
  "imageBlock =
     \<lparr> blockType.name = ascii ''core/image'', title = Some (ascii ''media library''),
       icon = JUndefined, description = None, category = Some (ascii ''media''),
       keywords' = Some [ascii ''photo''], parent = None,
       supports = JObj [(ascii ''color'', JObj [(ascii ''background'', JBool True)])],
       variationMatcher = None \<rparr>"

text \<open>A block type whose declared parent is not registered.\<close>

definition orphanBlock :: blockType where
  "orphanBlock =
     \<lparr> blockType.name = ascii ''core/orphan'', title = Some (ascii ''Orphan''),
       icon = JUndefined, description = None, category = None,
       keywords' = None, parent = Some [ascii ''core/missing''],
       supports = JUndefined, variationMatcher = None \<rparr>"

definition exampleState :: state where
  "exampleState =
     \<lparr> blockTypes =
         [(ascii ''core/columns'', columnsBlock), (ascii ''core/column'', columnBlock),
          (ascii ''core/image'', imageBlock), (ascii ''core/embed'', embedBlock),
          (ascii ''core/orphan'', orphanBlock)],
       blockStyles = Map.empty,
       blockVariations =
         [ascii ''core/columns'' \<mapsto> [variationA, variationB, variationC],
          ascii ''core/embed'' \<mapsto> [variationUntitled, variationTwitter],
          ascii ''core/missing'' \<mapsto> [variationA]] \<rparr>"

text \<open>
  A host for the examples, of which only what they can reach is written out: every
  boolean, number, string, array and function has a \<^verbatim>\<open>constructor\<close>. The examples
  lower-case no string outside Basic Latin and the Latin-1 Supplement.
\<close>

definition exampleHost :: host where
  "exampleHost =
     \<lparr> builtinMember = (\<lambda>v k. if k = ascii ''constructor'' then JFun 11 else JUndefined),
       hostToLowerCase = (\<lambda>s. s) \<rparr>"


definition termBlank :: jsstring where
  "termBlank = [0x20, 0x301, 0x20]"

section \<open>Facts about the library functions\<close>

declare baseGet.simps [simp del]

lemma nestedRead_Cons [simp]:
  "nestedRead h tree (k # ks) =
     (let child = readProperty h tree k
      in if child = JUndefined then None else nestedRead h child ks)"
  by (simp add: readProperty_def)

declare nestedRead.simps(2) [simp del]

lemma arrayIncludes_iff:
  "arrayIncludes xs x = (case x of None \<Rightarrow> False | Some s \<Rightarrow> s \<in> set xs)"
  by (induction xs) (auto split: option.splits)

lemma baseFindIndexFromRight_last:
  "n \<le> length xs \<Longrightarrow>
     (if filter p (take n xs) = [] then baseFindIndexFromRight p xs n = - 1
      else 0 \<le> baseFindIndexFromRight p xs n \<and> nat (baseFindIndexFromRight p xs n) < n \<and>
           xs ! nat (baseFindIndexFromRight p xs n) = last (filter p (take n xs)))"
proof (induction n)
  case 0
  then show ?case by simp
next
  case (Suc n)
  then have n: "n < length xs" by simp
  have tk: "take (Suc n) xs = take n xs @ [xs ! n]"
    using n by (simp add: take_Suc_conv_app_nth)
  show ?case
  proof (cases "p (xs ! n)")
    case True
    then show ?thesis by (simp add: tk)
  next
    case False
    with Suc n show ?thesis by (auto simp: tk split: if_splits)
  qed
qed

lemma findLast_eq:
  "findLast (Own xs) p = (case filter p xs of [] \<Rightarrow> None | f # fs \<Rightarrow> Some (last (f # fs)))"
  using baseFindIndexFromRight_last [of "length xs" xs p]
  by (auto simp: findLast_def Let_def split: list.splits if_splits)

lemma findLast_nothing: "findLast Absent p = None" "findLast (Inherited m) p = None"
  by (simp_all add: findLast_def)

lemma baseIndexOf_iff: "(baseIndexOf xs v i > - 1) = (v \<in> set xs)"
  by (induction xs arbitrary: i) auto

lemma lodashIncludes_iff:
  "lodashIncludes c v = (case c of None \<Rightarrow> False | Some xs \<Rightarrow> v \<in> set xs)"
  by (simp add: lodashIncludes_def baseIndexOf_iff split: option.splits)


lemma find_first_match:
  "\<forall>v\<in>set pre. \<not> P v \<Longrightarrow> P x \<Longrightarrow> find P (pre @ x # post) = Some x"
  by (induction pre) auto

lemma mapE_Inr: "mapE (\<lambda>x. Inr (f x)) xs = Inr (map f xs)"
  by (induction xs) auto

lemma split_nonempty: "split sep s \<noteq> []"
  by (induction s) (auto split: list.splits)

lemma indexOfFrom_iff: "(indexOfFrom s t k > - 1) = sublist t s"
  by (induction s arbitrary: k) (auto simp: sublist_Cons_right)

lemma objectLookup_own: "objectLookup (Some x) k = Own x"
  by (simp add: objectLookup_def)

lemma objectPrototype_no_member:
  assumes "k \<notin> set (map fst objectPrototype)"
  shows "map_of objectPrototype k = None"
  by (rule map_of_eq_None_iff [THEN iffD2]) (use assms in simp)

lemma objectLookup_absent:
  "k \<notin> set (map fst objectPrototype) \<Longrightarrow> objectLookup None k = Absent"
  by (simp add: objectLookup_def objectPrototype_no_member)

lemma objectPrototypeMember_absent:
  "k \<notin> set (map fst objectPrototype) \<Longrightarrow> objectPrototypeMember k = JUndefined"
  by (simp add: objectPrototypeMember_def objectPrototype_no_member)


lemma objectLookup_constructor:
  "objectLookup None (ascii ''constructor'') = Inherited (JFun 0)"
  by (simp add: objectLookup_def objectPrototype_def ascii_def)

subsection \<open>The loop of \<open>baseGet\<close> is the nested read\<close>

lemma readProperty_nullish: "nullish v \<Longrightarrow> readProperty h v k = JUndefined"
  by (auto simp: nullish_def readProperty_def)

lemma nestedRead_defined: "ks \<noteq> [] \<Longrightarrow> nestedRead h tree ks \<noteq> Some JUndefined"
proof (induction ks arbitrary: tree)
  case Nil
  then show ?case by simp
next
  case (Cons k ks)
  show ?case
  proof (cases ks)
    case Nil
    then show ?thesis by (simp add: Let_def)
  next
    case (Cons a list)
    then show ?thesis using Cons.IH by (simp add: Let_def)
  qed
qed

lemma baseGet_step:
  "\<not> nullish object \<Longrightarrow> index < length path \<Longrightarrow>
     baseGet h object path index =
       baseGet h (readProperty h object (path ! index)) path (Suc index)"
  by (subst baseGet.simps) simp

lemma baseGet_stop_nullish:
  "nullish object \<Longrightarrow> index < length path \<Longrightarrow> baseGet h object path index = JUndefined"
  by (subst baseGet.simps) simp

lemma baseGet_end:
  "baseGet h object path (length path) = (if path = [] then JUndefined else object)"
  by (subst baseGet.simps) simp

lemma baseGet_nestedRead:
  "index < length path \<Longrightarrow>
     baseGet h object path index =
       (case nestedRead h object (drop index path) of None \<Rightarrow> JUndefined | Some v \<Rightarrow> v)"
proof (induction "length path - index" arbitrary: object index)
  case 0
  then show ?case by simp
next
  case (Suc n)
  have dr: "drop index path = path ! index # drop (Suc index) path"
    using Suc.prems by (simp add: Cons_nth_drop_Suc)
  let ?child = "readProperty h object (path ! index)"
  show ?case
  proof (cases "nullish object")
    case True
    then show ?thesis
      using Suc.prems by (simp add: baseGet_stop_nullish dr readProperty_nullish)
  next
    case False
    note nn = this
    show ?thesis
    proof (cases "Suc index < length path")
      case True
      have n: "n = length path - Suc index" using Suc.hyps(2) by simp
      have ih: "baseGet h ?child path (Suc index) =
          (case nestedRead h ?child (drop (Suc index) path) of None \<Rightarrow> JUndefined | Some v \<Rightarrow> v)"
        using Suc.hyps(1) [OF n True] .
      have und: "?child = JUndefined \<Longrightarrow> baseGet h ?child path (Suc index) = JUndefined"
        using True by (simp add: baseGet_stop_nullish nullish_def)
      show ?thesis
      proof (cases "?child = JUndefined")
        case True
        then show ?thesis
          using und by (simp add: baseGet_step [OF nn Suc.prems] dr Let_def)
      next
        case False
        then show ?thesis
          using ih by (simp add: baseGet_step [OF nn Suc.prems] dr Let_def)
      qed
    next
      case False
      then have e: "Suc index = length path" using Suc.prems by simp
      have "baseGet h ?child path (Suc index) = ?child"
        using baseGet_end [of h ?child path] e by auto
      then show ?thesis
        using e by (simp add: baseGet_step [OF nn Suc.prems] dr Let_def)
    qed
  qed
qed

lemma get_nestedRead:
  assumes "path \<noteq> []"
  shows "get h object path d =
           (case nestedRead h object path of None \<Rightarrow> d | Some v \<Rightarrow> v)"
proof (cases "nullish object")
  case True
  obtain k ks where p: "path = k # ks" using assms by (cases path) auto
  show ?thesis
    using True by (simp add: get_def p readProperty_nullish Let_def)
next
  case False
  have b: "baseGet h object path 0 =
      (case nestedRead h object path of None \<Rightarrow> JUndefined | Some v \<Rightarrow> v)"
    using baseGet_nestedRead [of 0 path h object] assms by simp
  show ?thesis
    using False nestedRead_defined [OF assms, of h object]
    by (auto simp: get_def Let_def b split: option.splits)
qed

lemma nestedRead_supports:
  assumes "ks \<noteq> []"
  shows "nestedRead h (JObj [(ascii ''supports'', s)]) (ascii ''supports'' # ks) =
           nestedRead h s ks"
proof (cases "s = JUndefined")
  case True
  obtain k ks' where "ks = k # ks'" using assms by (cases ks) auto
  then show ?thesis
    using True by (simp add: Let_def readProperty_def)
next
  case False
  then show ?thesis by (simp add: Let_def readProperty_def)
qed


subsection \<open>Normalising a search term\<close>

lemma ws_not_latin: "isWhiteSpace c \<Longrightarrow> \<not> reLatin c"
  by (auto simp: isWhiteSpace_def reLatin_def)

lemma combo_not_latin: "reComboMark c \<Longrightarrow> \<not> reLatin c"
  by (auto simp: reComboMark_def reLatin_def)

lemma ws_lower: "isWhiteSpace c \<Longrightarrow> lowerCaseUnit c = c"
  by (auto simp: isWhiteSpace_def lowerCaseUnit_def)

lemma deburr_no_latin:
  assumes "\<forall>c\<in>set t. \<not> reLatin c"
  shows "deburr (Some t) = filter (\<lambda>c. \<not> reComboMark c) t"
proof -
  have "map (\<lambda>c. if reLatin c then deburrLetter c else [c]) t = map (\<lambda>c. [c]) t"
    using assms by (intro map_cong) simp_all
  then have "concat (map (\<lambda>c. if reLatin c then deburrLetter c else [c]) t) = t"
    by (simp only: concat_map_singleton map_ident)
  then show ?thesis
    by (simp only: deburr_def Let_def option.case)
qed

lemma deburr_blank:
  assumes "\<forall>c\<in>set t. isWhiteSpace c \<or> reComboMark c"
  shows "\<forall>c\<in>set (deburr (Some t)). isWhiteSpace c"
proof -
  have "\<forall>c\<in>set t. \<not> reLatin c"
    using assms ws_not_latin combo_not_latin by blast
  then have "deburr (Some t) = filter (\<lambda>c. \<not> reComboMark c) t"
    by (rule deburr_no_latin)
  then show ?thesis using assms by auto
qed

lemma toLowerCase_blank:
  assumes "\<forall>c\<in>set s. isWhiteSpace c"
  shows "toLowerCase h s = s"
proof -
  have "list_all latinOrWhiteSpace s"
    using assms by (simp add: list_all_iff latinOrWhiteSpace_def)
  moreover have "map lowerCaseUnit s = s"
    using assms by (induction s) (simp_all add: ws_lower)
  ultimately show ?thesis by (simp add: toLowerCase_def)
qed

lemma trim_blank:
  assumes a: "\<forall>c\<in>set s. isWhiteSpace c"
  shows "trim s = []"
proof -
  have d: "dropWhile isWhiteSpace s = []"
    using a by (induction s) auto
  show ?thesis unfolding trim_def d by simp
qed

lemma normalize_blank:
  assumes "\<forall>c\<in>set t. isWhiteSpace c \<or> reComboMark c"
  shows "getNormalizedSearchTerm h (Some t) = []"
proof -
  have b: "\<forall>c\<in>set (deburr (Some t)). isWhiteSpace c"
    using deburr_blank [OF assms] .
  show ?thesis
    by (simp add: getNormalizedSearchTerm_def toLowerCase_blank [OF b] trim_blank [OF b])
qed

lemma isSearchMatch_iff:
  "isSearchMatch h n c = sublist n (getNormalizedSearchTerm h c)"
  by (simp add: isSearchMatch_def lodashIncludesString_def indexOfFrom_iff)

section \<open>Facts about the selectors\<close>

lemma getBlockVariations_eq:
  "getBlockVariations st blockName scp =
     (case objectLookup (blockVariations st blockName) blockName of
        Absent \<Rightarrow> Inr Absent
      | Inherited m \<Rightarrow> if truthyString scp then Inl TypeError else Inr (Inherited m)
      | Own vs \<Rightarrow>
          Inr (Own (case scp of
                      None \<Rightarrow> vs
                    | Some s \<Rightarrow>
                        if s = [] then vs
                        else filter (\<lambda>v. s \<in> set (scopeOrDefault v)) vs)))"
  by (auto simp: getBlockVariations_def Let_def truthyString_def arrayIncludes_iff
           split: option.splits entry.splits)

lemma getBlockVariations_no_scope:
  "getBlockVariations st blockName None =
     Inr (objectLookup (blockVariations st blockName) blockName)"
  by (simp add: getBlockVariations_def Let_def truthyString_def)

lemma defaultOf_eq:
  "(case findLast (Own vs) (\<lambda>v. truthyBoolean (isDefault v)) of
      Some v \<Rightarrow> Some v
    | None \<Rightarrow> first (Own vs)) =
   (case filter (\<lambda>v. isDefault v = Some True) vs of
      [] \<Rightarrow> (case vs of [] \<Rightarrow> None | v # rest \<Rightarrow> Some v)
    | d # ds \<Rightarrow> Some (last (d # ds)))"
proof -
  have tb: "(\<lambda>v. truthyBoolean (isDefault v)) = (\<lambda>v. isDefault v = Some True)"
    by (auto simp: truthyBoolean_def fun_eq_iff split: option.splits)
  show ?thesis
    by (auto simp: first_def findLast_eq tb split: option.splits list.splits)
qed

lemma getDefaultBlockVariation_eq:
  "getDefaultBlockVariation st blockName scp =
     (case objectLookup (blockVariations st blockName) blockName of
        Absent \<Rightarrow> Inr None
      | Inherited m \<Rightarrow> if truthyString scp then Inl TypeError else Inr None
      | Own vs \<Rightarrow>
          Inr (let scoped =
                     (case scp of
                        None \<Rightarrow> vs
                      | Some s \<Rightarrow>
                          if s = [] then vs
                          else filter (\<lambda>v. s \<in> set (scopeOrDefault v)) vs)
               in case filter (\<lambda>v. isDefault v = Some True) scoped of
                    [] \<Rightarrow> (case scoped of [] \<Rightarrow> None | v # rest \<Rightarrow> Some v)
                  | d # ds \<Rightarrow> Some (last (d # ds))))"
proof (cases "objectLookup (blockVariations st blockName) blockName")
  case Absent
  then show ?thesis
    by (simp add: getDefaultBlockVariation_def getBlockVariations_eq findLast_nothing first_def)
next
  case (Own vs)
  then show ?thesis
    by (simp add: getDefaultBlockVariation_def getBlockVariations_eq defaultOf_eq Let_def)
next
  case (Inherited m)
  then show ?thesis
    by (simp add: getDefaultBlockVariation_def getBlockVariations_eq findLast_nothing first_def)
qed

lemma getBlockSupport_eq:
  "getBlockSupport h st nameOrType feature d =
     (case getNormalizedBlockType st nameOrType of
        Absent \<Rightarrow> d
      | Own bt \<Rightarrow>
          (case nestedRead h (supports bt) (split 46 feature) of None \<Rightarrow> d | Some v \<Rightarrow> v)
      | Inherited m \<Rightarrow>
          (case nestedRead h m (ascii ''supports'' # split 46 feature) of
             None \<Rightarrow> d
           | Some v \<Rightarrow> v))"
proof (cases "getNormalizedBlockType st nameOrType")
  case Absent
  then show ?thesis
    by (simp add: getBlockSupport_def Let_def blockTypeObject_def get_def nullish_def)
next
  case (Own bt)
  then show ?thesis
    by (simp add: getBlockSupport_def Let_def blockTypeObject_def get_nestedRead
          nestedRead_supports split_nonempty del: nestedRead_Cons)
next
  case (Inherited m)
  then show ?thesis
    by (simp add: getBlockSupport_def Let_def blockTypeObject_def get_nestedRead
          del: nestedRead_Cons)
qed

lemma getChildBlockNames_eq:
  "getChildBlockNames st blockName =
     map blockType.name
       (filter (\<lambda>bt. case parent bt of None \<Rightarrow> False | Some ps \<Rightarrow> blockName \<in> set ps)
          (objectValues (blockTypes st)))"
  by (simp add: getChildBlockNames_def lodashIncludes_iff)

lemma getBlockTypes_eq:
  "getBlockTypes st =
     Inr (map (\<lambda>bt. withVariations bt
                      (objectLookup (blockVariations st (blockType.name bt)) (blockType.name bt)))
            (objectValues (blockTypes st)))"
  by (simp add: getBlockTypes_def getBlockVariations_no_scope mapE_Inr)

lemma truncate_withVariations: "blockType.truncate (withVariations bt vars) = bt"
  by (simp add: withVariations_def blockType.truncate_def blockType.extend_def)

lemma variations_withVariations: "variations (withVariations bt vars) = vars"
  by (simp add: withVariations_def blockType.extend_def blockTypeWithVariations.fields_def)


lemma getBlockType_unregistered:
  assumes "blockName \<notin> set (map fst (blockTypes st))"
  shows "getBlockType st blockName = objectLookup None blockName"
proof -
  have "map_of (blockTypes st) blockName = None"
    using assms by (simp add: map_of_eq_None_iff)
  then show ?thesis by (simp add: getBlockType_def)
qed



lemma isMatchingSearchTerm_empty:
  "getNormalizedBlockType st nameOrType = Own bt \<Longrightarrow>
   getNormalizedSearchTerm h (Some searchTerm) = [] \<Longrightarrow>
   isMatchingSearchTerm h st nameOrType searchTerm = Inr True"
  by (simp add: isMatchingSearchTerm_def Let_def isSearchMatch_iff)

section \<open>Evaluating the example registry\<close>

lemma example_embed: "getBlockType exampleState (ascii ''core/embed'') = Own embedBlock"
  by (simp add: getBlockType_def objectLookup_def exampleState_def ascii_def)

lemma example_image: "getBlockType exampleState (ascii ''core/image'') = Own imageBlock"
  by (simp add: getBlockType_def objectLookup_def exampleState_def ascii_def)


lemma example_embed_variations:
  "blockVariations exampleState (ascii ''core/embed'') = Some [variationUntitled, variationTwitter]"
  by (simp add: exampleState_def ascii_def)

lemma example_columns_variations:
  "blockVariations exampleState (ascii ''core/columns'') =
     Some [variationA, variationB, variationC]"
  by (simp add: exampleState_def ascii_def)

lemma example_missing_variations:
  "blockVariations exampleState (ascii ''core/missing'') = Some [variationA]"
  by (simp add: exampleState_def ascii_def)

lemma example_constructor:
  "map_of (blockTypes exampleState) (ascii ''constructor'') = None"
  "blockVariations exampleState (ascii ''constructor'') = None"
  by (simp_all add: exampleState_def ascii_def)

lemma example_matches_twitter:
  "\<not> truthy (matchByName (attributesOf ''twitter'') variationUntitled)"
  "truthy (matchByName (attributesOf ''twitter'') variationTwitter)"
  by (simp_all add: matchByName_def attributesOf_def variationUntitled_def variationTwitter_def
        ascii_def)

lemma example_matches_youtube:
  "truthy (matchByName (attributesOf ''youtube'') variationUntitled)"
  by (simp add: matchByName_def attributesOf_def variationUntitled_def ascii_def)

lemma example_scopes:
  "scope variationA = None" "scope variationB = Some [ascii ''transform'']"
  "scope variationC = Some [ascii ''block'']"
  by (simp_all add: variationA_def variationB_def variationC_def)

lemma example_defaults:
  "isDefault variationA = Some True" "isDefault variationB = Some True"
  "isDefault variationC = None"
  by (simp_all add: variationA_def variationB_def variationC_def)

section \<open>Display information of a block\<close>

text \<open>
  C1 (as amended). For a registered block name with a variation matcher and a variation
  list, \<^verbatim>\<open>getBlockDisplayInformation\<close> takes the first variation, in listed order, for
  which the matcher's result is truthy. Title, icon and description come from that
  variation where the variation's field is truthy, and from the block type otherwise:
  the source writes \<^verbatim>\<open>match.title || blockType.title\<close>, so a field that is present but
  is the empty string falls back as well. A matched variation that sets only a non-empty
  title yields its title with the block type's icon and description.
\<close>

theorem getBlockDisplayInformation_overlay:
  assumes "getBlockType st blockName = Own bt"
    and "variationMatcher bt = Some matcher"
    and "blockVariations st blockName = Some (pre @ match # post)"
    and "\<forall>v\<in>set pre. \<not> truthy (matcher attributes v)"
    and "truthy (matcher attributes match)"
  shows "getBlockDisplayInformation st blockName attributes =
           Inr \<lparr> blockDisplayInformation.title =
                   (if truthyString (variation.title match) then variation.title match
                    else blockType.title bt),
                 icon =
                   (if truthy (variation.icon match) then variation.icon match
                    else blockType.icon bt),
                 description =
                   (if truthyString (variation.description match)
                    then variation.description match
                    else blockType.description bt) \<rparr>"
proof -
  have "find (\<lambda>v. truthy (matcher attributes v)) (pre @ match # post) = Some match"
    using assms(4,5) by (rule find_first_match)
  then show ?thesis
    using assms(1,2,3)
    by (simp add: getBlockDisplayInformation_def Let_def objectLookup_own orElse_def
          orElseString_def)
qed

text \<open>
  The second variation of the embed block sets only its title: the result has that title,
  and the icon and description of the block type.
\<close>

theorem getBlockDisplayInformation_overlay_witness:
  "getBlockDisplayInformation exampleState (ascii ''core/embed'') (attributesOf ''twitter'') =
     Inr \<lparr> blockDisplayInformation.title = variation.title variationTwitter,
           icon = blockType.icon embedBlock,
           description = blockType.description embedBlock \<rparr>"
proof -
  have m: "variationMatcher embedBlock = Some matchByName"
    by (simp add: embedBlock_def)
  have vs: "blockVariations exampleState (ascii ''core/embed'') =
              Some ([variationUntitled] @ variationTwitter # [])"
    by (simp add: example_embed_variations)
  have pre: "\<forall>v\<in>set [variationUntitled]. \<not> truthy (matchByName (attributesOf ''twitter'') v)"
    by (simp add: example_matches_twitter)
  show ?thesis
    using getBlockDisplayInformation_overlay
            [OF example_embed m vs pre example_matches_twitter(2)]
    by (simp add: variationTwitter_def truthyString_def ascii_def)
qed

text \<open>
  The claim as stated takes a field from the variation wherever the field is present.
  The first variation of the embed block has a title, the empty string; it is matched,
  and the title returned is the block type's.
\<close>

theorem getBlockDisplayInformation_present_counterexample:
  "variation.title variationUntitled = Some [] \<and>
   getBlockDisplayInformation exampleState (ascii ''core/embed'') (attributesOf ''youtube'') =
     Inr \<lparr> blockDisplayInformation.title = Some (ascii ''Embed''),
           icon = JStr (ascii ''video''),
           description = Some (ascii ''A video'') \<rparr>"
proof -
  have "find (\<lambda>v. truthy (matchByName (attributesOf ''youtube'') v))
          [variationUntitled, variationTwitter] = Some variationUntitled"
    by (simp add: example_matches_youtube)
  then have "getBlockDisplayInformation exampleState (ascii ''core/embed'')
               (attributesOf ''youtube'') =
     Inr \<lparr> blockDisplayInformation.title =
             orElseString (variation.title variationUntitled) (blockType.title embedBlock),
           icon = orElse (variation.icon variationUntitled) (blockType.icon embedBlock),
           description =
             orElseString (variation.description variationUntitled)
               (blockType.description embedBlock) \<rparr>"
    by (simp add: getBlockDisplayInformation_def Let_def example_embed objectLookup_own
          example_embed_variations embedBlock_def)
  then show ?thesis
    by (simp add: variationUntitled_def embedBlock_def orElse_def orElseString_def
          truthyString_def ascii_def)
qed

section \<open>The default variation\<close>

text \<open>
  C2 (as amended). For a block name under which variations are stored,
  \<^verbatim>\<open>getDefaultBlockVariation( state, blockName, scope )\<close> looks at the variations whose scope
  list contains the scope (a variation without a declared scope counts as
  \<^verbatim>\<open>[ 'block', 'inserter' ]\<close>), or at all of them when no scope or the empty string is
  given. It returns the last of these flagged \<^verbatim>\<open>isDefault\<close>; when none is flagged, the
  first of them; and nothing when there is none. For a block name without stored
  variations it returns nothing, except when the name is that of a member of
  \<^verbatim>\<open>Object.prototype\<close> and a scope is given: then it throws a TypeError.
\<close>

theorem getDefaultBlockVariation_last_default:
  "getDefaultBlockVariation st blockName scp =
     (case blockVariations st blockName of
        None \<Rightarrow>
          (case map_of objectPrototype blockName of
             None \<Rightarrow> Inr None
           | Some inherited \<Rightarrow>
               (case scp of
                  None \<Rightarrow> Inr None
                | Some s \<Rightarrow> if s = [] then Inr None else Inl TypeError))
      | Some vs \<Rightarrow>
          Inr (let scoped =
                     (case scp of
                        None \<Rightarrow> vs
                      | Some s \<Rightarrow>
                          if s = [] then vs
                          else filter (\<lambda>v. s \<in> set (case scope v of
                                                       None \<Rightarrow> [ascii ''block'', ascii ''inserter'']
                                                     | Some declared \<Rightarrow> declared)) vs)
               in case filter (\<lambda>v. isDefault v = Some True) scoped of
                    [] \<Rightarrow> (case scoped of [] \<Rightarrow> None | v # rest \<Rightarrow> Some v)
                  | d # ds \<Rightarrow> Some (last (d # ds))))"
  by (simp add: getDefaultBlockVariation_eq objectLookup_def scopeOrDefault_def
        truthyString_def split: option.splits)

text \<open>
  Of the variations A (default, no scope), B (default, scope \<^verbatim>\<open>[ 'transform' ]\<close>) and C
  (scope \<^verbatim>\<open>[ 'block' ]\<close>), the default for the scope \<^verbatim>\<open>'block'\<close> is A, and the default
  without a scope is B.
\<close>

theorem getDefaultBlockVariation_last_default_witness:
  "getDefaultBlockVariation exampleState (ascii ''core/columns'') (Some (ascii ''block'')) =
     Inr (Some variationA) \<and>
   getDefaultBlockVariation exampleState (ascii ''core/columns'') None = Inr (Some variationB)"
proof -
  have ne: "ascii ''block'' \<noteq> []"
    by (simp add: ascii_def)
  have sc: "filter (\<lambda>v. ascii ''block'' \<in> set (case scope v of
                             None \<Rightarrow> [ascii ''block'', ascii ''inserter'']
                           | Some declared \<Rightarrow> declared))
              [variationA, variationB, variationC] = [variationA, variationC]"
    by (simp add: example_scopes) (simp add: ascii_def)
  have "getDefaultBlockVariation exampleState (ascii ''core/columns'') (Some (ascii ''block'')) =
          Inr (Some variationA)"
    using getDefaultBlockVariation_last_default
            [of exampleState "ascii ''core/columns''" "Some (ascii ''block'')"]
    by (simp only: example_columns_variations option.case ne if_False sc Let_def)
       (simp add: example_defaults)
  moreover
  have "getDefaultBlockVariation exampleState (ascii ''core/columns'') None =
          Inr (Some variationB)"
    using getDefaultBlockVariation_last_default [of exampleState "ascii ''core/columns''" None]
    by (simp only: example_columns_variations option.case Let_def)
       (simp add: example_defaults)
  ultimately show ?thesis by simp
qed

text \<open>
  The claim as stated returns a variation or nothing for every block name and scope. No
  variations are stored under \<^verbatim>\<open>constructor\<close>; with the scope \<^verbatim>\<open>'block'\<close> the call
  throws.
\<close>

theorem getDefaultBlockVariation_inherited_counterexample:
  "blockVariations exampleState (ascii ''constructor'') = None \<and>
   getDefaultBlockVariation exampleState (ascii ''constructor'') (Some (ascii ''block'')) =
     Inl TypeError"
proof -
  have "getBlockVariations exampleState (ascii ''constructor'') (Some (ascii ''block'')) =
          Inl TypeError"
    by (simp add: getBlockVariations_def Let_def example_constructor objectLookup_constructor
          truthyString_def)
       (simp add: ascii_def)
  then show ?thesis
    by (simp add: getDefaultBlockVariation_def example_constructor)
qed

section \<open>Variations of a scope\<close>

text \<open>
  C3 (as amended). For a block name under which variations are stored and a scope that
  is not the empty string, \<^verbatim>\<open>getBlockVariations( state, blockName, scope )\<close> returns, in
  their order, exactly the variations whose scope list contains the scope, where a
  variation without a declared scope counts as \<^verbatim>\<open>[ 'block', 'inserter' ]\<close>. Without a
  scope argument, and also with the empty string as scope (the guard is \<^verbatim>\<open>! scope\<close>),
  it returns all of them unfiltered. For a block name without stored variations it
  returns nothing, except when the name is that of a member of \<^verbatim>\<open>Object.prototype\<close>:
  then it returns that member when no scope (or the empty string) is given, and throws a
  TypeError when a scope is given.
\<close>

theorem getBlockVariations_scoped:
  "getBlockVariations st blockName scp =
     (case blockVariations st blockName of
        None \<Rightarrow>
          (case map_of objectPrototype blockName of
             None \<Rightarrow> Inr Absent
           | Some inherited \<Rightarrow>
               (case scp of
                  None \<Rightarrow> Inr (Inherited inherited)
                | Some s \<Rightarrow> if s = [] then Inr (Inherited inherited) else Inl TypeError))
      | Some vs \<Rightarrow>
          Inr (Own (case scp of
                      None \<Rightarrow> vs
                    | Some s \<Rightarrow>
                        if s = [] then vs
                        else filter (\<lambda>v. s \<in> set (case scope v of
                                                     None \<Rightarrow> [ascii ''block'', ascii ''inserter'']
                                                   | Some declared \<Rightarrow> declared)) vs)))"
  by (simp add: getBlockVariations_eq objectLookup_def scopeOrDefault_def truthyString_def
           split: option.splits)

text \<open>
  For the scope \<^verbatim>\<open>'block'\<close>: A (no declared scope) and C (scope \<^verbatim>\<open>[ 'block' ]\<close>) are
  returned, B (scope \<^verbatim>\<open>[ 'transform' ]\<close>) is not. Nothing is stored under
  \<^verbatim>\<open>core/image\<close>.
\<close>

theorem getBlockVariations_scoped_witness:
  "getBlockVariations exampleState (ascii ''core/columns'') (Some (ascii ''block'')) =
     Inr (Own [variationA, variationC]) \<and>
   getBlockVariations exampleState (ascii ''core/image'') (Some (ascii ''block'')) = Inr Absent"
proof -
  have i: "blockVariations exampleState (ascii ''core/image'') = None"
    "map_of objectPrototype (ascii ''core/image'') = None"
    by (simp_all add: exampleState_def objectPrototype_def ascii_def)
  have ne: "ascii ''block'' \<noteq> []"
    by (simp add: ascii_def)
  have sc: "filter (\<lambda>v. ascii ''block'' \<in> set (case scope v of
                             None \<Rightarrow> [ascii ''block'', ascii ''inserter'']
                           | Some declared \<Rightarrow> declared))
              [variationA, variationB, variationC] = [variationA, variationC]"
    by (simp add: example_scopes) (simp add: ascii_def)
  have "getBlockVariations exampleState (ascii ''core/columns'') (Some (ascii ''block'')) =
          Inr (Own [variationA, variationC])"
    using getBlockVariations_scoped
            [of exampleState "ascii ''core/columns''" "Some (ascii ''block'')"]
    by (simp only: example_columns_variations option.case ne if_False sc)
  moreover
  have "getBlockVariations exampleState (ascii ''core/image'') (Some (ascii ''block'')) =
          Inr Absent"
    using getBlockVariations_scoped
            [of exampleState "ascii ''core/image''" "Some (ascii ''block'')"]
    by (simp only: i option.case)
  ultimately show ?thesis by simp
qed

text \<open>
  The claim as stated filters for every given scope and every block name. Given the
  empty string, which is in the scope list of none of A, B and C, all three are
  returned. And under \<^verbatim>\<open>constructor\<close>, where no variations are stored, the scope
  \<^verbatim>\<open>'block'\<close> makes the call throw, and no scope gives the inherited function.
\<close>

theorem getBlockVariations_empty_scope_counterexample:
  "[] \<notin> set (scopeOrDefault variationA) \<and> [] \<notin> set (scopeOrDefault variationB) \<and>
   [] \<notin> set (scopeOrDefault variationC) \<and>
   getBlockVariations exampleState (ascii ''core/columns'') (Some []) =
     Inr (Own [variationA, variationB, variationC]) \<and>
   blockVariations exampleState (ascii ''constructor'') = None \<and>
   getBlockVariations exampleState (ascii ''constructor'') (Some (ascii ''block'')) =
     Inl TypeError \<and>
   getBlockVariations exampleState (ascii ''constructor'') None = Inr (Inherited (JFun 0))"
proof -
  have "getBlockVariations exampleState (ascii ''core/columns'') (Some []) =
          Inr (Own [variationA, variationB, variationC])"
    by (simp add: getBlockVariations_def Let_def truthyString_def example_columns_variations
          objectLookup_own)
  moreover
  have "getBlockVariations exampleState (ascii ''constructor'') (Some (ascii ''block'')) =
          Inl TypeError"
    by (simp add: getBlockVariations_def Let_def example_constructor objectLookup_constructor
          truthyString_def)
       (simp add: ascii_def)
  moreover
  have "getBlockVariations exampleState (ascii ''constructor'') None = Inr (Inherited (JFun 0))"
    by (simp add: getBlockVariations_def Let_def example_constructor objectLookup_constructor
          truthyString_def)
  ultimately show ?thesis
    by (simp add: example_constructor scopeOrDefault_def example_scopes) (simp add: ascii_def)
qed

section \<open>The support lookup follows the feature path\<close>



lemma example_image_normalized:
  "getNormalizedBlockType exampleState (Name (ascii ''core/image'')) = Own imageBlock"
  by (simp add: getNormalizedBlockType_def example_image)



section \<open>Matching is a substring test on normalized strings\<close>







text \<open>
  C10. When the name or object resolves to a registered block type (whatever its title),
  a search term that normalizes to the empty string matches: the empty string is a
  substring of every candidate. Such are the empty term and every term made only of
  white space and combining marks.
\<close>

theorem isMatchingSearchTerm_blank_term:
  assumes "getNormalizedBlockType st nameOrType = Own bt"
    and "getNormalizedSearchTerm h (Some searchTerm) = [] \<or>
         (\<forall>c\<in>set searchTerm. isWhiteSpace c \<or> reComboMark c)"
  shows "getNormalizedSearchTerm h (Some searchTerm) = [] \<and>
         isMatchingSearchTerm h st nameOrType searchTerm = Inr True"
proof -
  have e: "getNormalizedSearchTerm h (Some searchTerm) = []"
    using assms(2) normalize_blank by blast
  with assms(1) show ?thesis
    by (simp add: isMatchingSearchTerm_empty)
qed

text \<open>A space, a combining acute accent and a space match the image block.\<close>

theorem isMatchingSearchTerm_blank_term_witness:
  "isMatchingSearchTerm exampleHost exampleState (Name (ascii ''core/image'')) termBlank =
     Inr True \<and>
   isMatchingSearchTerm exampleHost exampleState (Name (ascii ''core/image'')) [] = Inr True"
proof -
  have b: "\<forall>c\<in>set termBlank. isWhiteSpace c \<or> reComboMark c"
    by (simp add: termBlank_def isWhiteSpace_def reComboMark_def)
  have e: "\<forall>c\<in>set ([]::jsstring). isWhiteSpace c \<or> reComboMark c"
    by simp
  show ?thesis
    using isMatchingSearchTerm_blank_term [OF example_image_normalized disjI2, OF b]
          isMatchingSearchTerm_blank_term [OF example_image_normalized disjI2, OF e]
    by simp
qed

section \<open>Child blocks\<close>

lemma example_values:
  "objectValues (blockTypes exampleState) =
     [columnsBlock, columnBlock, imageBlock, embedBlock, orphanBlock]"
  by (simp add: objectValues_def exampleState_def)

lemma example_parents:
  "parent columnsBlock = None" "parent columnBlock = Some [ascii ''core/columns'']"
  "parent imageBlock = None" "parent embedBlock = None"
  "parent orphanBlock = Some [ascii ''core/missing'']"
  by (simp_all add: columnsBlock_def columnBlock_def imageBlock_def embedBlock_def
        orphanBlock_def)

lemma example_names:
  "blockType.name columnsBlock = ascii ''core/columns''"
  "blockType.name columnBlock = ascii ''core/column''"
  "blockType.name imageBlock = ascii ''core/image''"
  "blockType.name embedBlock = ascii ''core/embed''"
  "blockType.name orphanBlock = ascii ''core/orphan''"
  by (simp_all add: columnsBlock_def columnBlock_def imageBlock_def embedBlock_def
        orphanBlock_def)


text \<open>
  C6. \<^verbatim>\<open>getChildBlockNames( state, blockName )\<close> returns the names of exactly the
  registered block types whose \<^verbatim>\<open>parent\<close> list contains \<open>blockName\<close>, in the order in
  which the type map lists them.
\<close>

theorem getChildBlockNames_exact:
  "getChildBlockNames st blockName =
     map blockType.name
       (filter (\<lambda>bt. case parent bt of None \<Rightarrow> False | Some ps \<Rightarrow> blockName \<in> set ps)
          (map snd (blockTypes st)))"
  by (simp add: getChildBlockNames_eq objectValues_def)

text \<open>Of the five example block types only the column block names the columns block.\<close>

theorem getChildBlockNames_exact_witness:
  "getChildBlockNames exampleState (ascii ''core/columns'') = [ascii ''core/column'']"
proof -
  have v: "map snd (blockTypes exampleState) =
             [columnsBlock, columnBlock, imageBlock, embedBlock, orphanBlock]"
    using example_values by (simp add: objectValues_def)
  have "getChildBlockNames exampleState (ascii ''core/columns'') =
          map blockType.name
            (filter (\<lambda>bt. case parent bt of
                             None \<Rightarrow> False
                           | Some ps \<Rightarrow> ascii ''core/columns'' \<in> set ps)
               [columnsBlock, columnBlock, imageBlock, embedBlock, orphanBlock])"
    using getChildBlockNames_exact [of exampleState "ascii ''core/columns''"]
    by (simp only: v)
  also have "\<dots> = [blockType.name columnBlock]"
    by (simp add: example_parents) (simp add: ascii_def)
  finally show ?thesis by (simp add: example_names)
qed



section \<open>All block types with their variations\<close>

text \<open>
  C8. \<^verbatim>\<open>getBlockTypes( state )\<close> does not throw and returns one entry per registered
  block type, in the order of the type map. Without its \<^verbatim>\<open>variations\<close> field an entry
  is the block type itself, and the \<^verbatim>\<open>variations\<close> field holds what
  \<^verbatim>\<open>getBlockVariations\<close> returns for the block type's name and no scope.
\<close>

theorem getBlockTypes_annotated:
  "\<exists>entries.
     getBlockTypes st = Inr entries \<and>
     length entries = length (blockTypes st) \<and>
     map blockType.truncate entries = objectValues (blockTypes st) \<and>
     map (\<lambda>e. Inr (variations e)) entries =
       map (\<lambda>bt. getBlockVariations st (blockType.name bt) None) (objectValues (blockTypes st))"
  by (simp add: getBlockTypes_eq objectValues_def o_def truncate_withVariations
        variations_withVariations getBlockVariations_no_scope)

text \<open>
  The five example block types come back unchanged, the columns and the embed block with
  their variations, the others with none.
\<close>

theorem getBlockTypes_annotated_witness:
  "\<exists>entries.
     getBlockTypes exampleState = Inr entries \<and>
     length entries = 5 \<and>
     map blockType.truncate entries =
       [columnsBlock, columnBlock, imageBlock, embedBlock, orphanBlock] \<and>
     map variations entries =
       [Own [variationA, variationB, variationC], Absent, Absent,
        Own [variationUntitled, variationTwitter], Absent]"
proof -
  from getBlockTypes_annotated [of exampleState]
  obtain entries where
    r: "getBlockTypes exampleState = Inr entries" and
    l: "length entries = length (blockTypes exampleState)" and
    t: "map blockType.truncate entries = objectValues (blockTypes exampleState)" and
    v: "map (\<lambda>e. Inr (variations e)) entries =
          map (\<lambda>bt. getBlockVariations exampleState (blockType.name bt) None)
            (objectValues (blockTypes exampleState))"
    by blast
  have n: "objectLookup (blockVariations exampleState (ascii ''core/column''))
             (ascii ''core/column'') = Absent"
     "objectLookup (blockVariations exampleState (ascii ''core/image''))
             (ascii ''core/image'') = Absent"
     "objectLookup (blockVariations exampleState (ascii ''core/orphan''))
             (ascii ''core/orphan'') = Absent"
    by (simp_all add: objectLookup_def exampleState_def objectPrototype_def ascii_def)
  let ?expected = "[Own [variationA, variationB, variationC], Absent, Absent,
                    Own [variationUntitled, variationTwitter], Absent]"
  let ?inr = "Inr :: variation list entry \<Rightarrow> error + variation list entry"
  have "map (\<lambda>bt. getBlockVariations exampleState (blockType.name bt) None)
            (objectValues (blockTypes exampleState)) = map ?inr ?expected"
    by (simp add: example_values example_names getBlockVariations_no_scope
          example_columns_variations example_embed_variations objectLookup_own n)
  with v have "map ?inr (map variations entries) = map ?inr ?expected"
    by (simp add: o_def)
  then have vs: "map variations entries = ?expected"
    by (simp only: inj_map_eq_map [OF inj_Inr])
  have "length entries = 5"
    using l by (simp add: exampleState_def)
  with r t vs show ?thesis
    by (simp add: example_values)
qed

section \<open>Queries about a block name that is not registered\<close>

lemma example_nothing:
  "ascii ''core/nothing'' \<notin> set (map fst (blockTypes exampleState))"
  "ascii ''core/nothing'' \<notin> set (map fst objectPrototype)"
  "blockVariations exampleState (ascii ''core/nothing'') = None"
  by (simp_all add: exampleState_def objectPrototype_def ascii_def)

lemma example_missing:
  "ascii ''core/missing'' \<notin> set (map fst (blockTypes exampleState))"
  "getBlockType exampleState (ascii ''core/missing'') = Absent"
  by (simp_all add: getBlockType_def objectLookup_def exampleState_def objectPrototype_def
        ascii_def)

text \<open>
  The two selectors that read a field of the block type without a guard throw when the
  lookup of the name gives \<^verbatim>\<open>undefined\<close>.
\<close>

lemma unregistered_dereference_throws:
  assumes "getBlockType st blockName = Absent"
  shows "getBlockDisplayInformation st blockName attributes = Inl TypeError"
    and "isMatchingSearchTerm h st (Name blockName) searchTerm = Inl TypeError"
  using assms
  by (simp_all add: getBlockDisplayInformation_def isMatchingSearchTerm_def
        getNormalizedBlockType_def Let_def)

text \<open>
  C7 (as amended). For a block name that is not registered and is not the name of a
  member of \<^verbatim>\<open>Object.prototype\<close>, no selector other than
  \<^verbatim>\<open>getBlockDisplayInformation\<close> and \<^verbatim>\<open>isMatchingSearchTerm\<close> throws. \<^verbatim>\<open>getBlockType\<close>
  returns nothing, \<^verbatim>\<open>getBlockSupport\<close> returns the caller's default and
  \<^verbatim>\<open>hasBlockSupport\<close> its truthiness. \<^verbatim>\<open>getBlockStyles\<close>, \<^verbatim>\<open>getBlockVariations\<close> and
  \<^verbatim>\<open>getDefaultBlockVariation\<close> read their own maps, which may hold entries for a name
  that is not registered: they return nothing when the map has no entry for the name.
  \<^verbatim>\<open>getChildBlockNames\<close> returns the names of the registered block types that list the
  name as a parent, whether or not the name itself is registered; it is empty, and
  \<^verbatim>\<open>hasChildBlocks\<close> false, exactly when no registered block type does.
\<close>

theorem unregistered_block_queries:
  assumes "blockName \<notin> set (map fst (blockTypes st))"
    and "blockName \<notin> set (map fst objectPrototype)"
  shows "getBlockType st blockName = Absent \<and>
         getBlockSupport h st (Name blockName) feature defaultSupports = defaultSupports \<and>
         hasBlockSupport h st (Name blockName) feature defaultSupports =
           truthy defaultSupports \<and>
         getBlockStyles st blockName =
           (case blockStyles st blockName of None \<Rightarrow> Absent | Some styles \<Rightarrow> Own styles) \<and>
         getBlockVariations st blockName scp =
           Inr (case blockVariations st blockName of
                  None \<Rightarrow> Absent
                | Some vs \<Rightarrow>
                    Own (case scp of
                           None \<Rightarrow> vs
                         | Some s \<Rightarrow>
                             if s = [] then vs
                             else filter
                                    (\<lambda>v. s \<in> set (case scope v of
                                                      None \<Rightarrow> [ascii ''block'', ascii ''inserter'']
                                                    | Some declared \<Rightarrow> declared))
                                    vs)) \<and>
         (\<exists>found. getDefaultBlockVariation st blockName scp = Inr found \<and>
                  (blockVariations st blockName = None \<longrightarrow> found = None)) \<and>
         (\<exists>entries. getBlockTypes st = Inr entries) \<and>
         getChildBlockNames st blockName =
           map blockType.name
             (filter (\<lambda>bt. case parent bt of None \<Rightarrow> False | Some ps \<Rightarrow> blockName \<in> set ps)
                (objectValues (blockTypes st))) \<and>
         (getChildBlockNames st blockName = []) =
           (\<forall>bt\<in>set (objectValues (blockTypes st)).
              case parent bt of None \<Rightarrow> True | Some ps \<Rightarrow> blockName \<notin> set ps) \<and>
         hasChildBlocks st blockName = (getChildBlockNames st blockName \<noteq> [])"
proof -
  have a: "getBlockType st blockName = Absent"
    by (simp add: getBlockType_unregistered [OF assms(1)] objectLookup_absent [OF assms(2)])
  have s: "getBlockSupport h st (Name blockName) feature defaultSupports = defaultSupports"
    by (simp add: getBlockSupport_eq getNormalizedBlockType_def a)
  have b: "hasBlockSupport h st (Name blockName) feature defaultSupports =
             truthy defaultSupports"
    by (simp add: hasBlockSupport_def s)
  have y: "getBlockStyles st blockName =
             (case blockStyles st blockName of None \<Rightarrow> Absent | Some styles \<Rightarrow> Own styles)"
    by (simp add: getBlockStyles_def objectLookup_absent [OF assms(2)] objectLookup_own
          split: option.splits)
  have l: "objectLookup (blockVariations st blockName) blockName =
             (case blockVariations st blockName of None \<Rightarrow> Absent | Some vs \<Rightarrow> Own vs)"
    by (simp add: objectLookup_absent [OF assms(2)] objectLookup_own split: option.splits)
  have v: "getBlockVariations st blockName scp =
           Inr (case blockVariations st blockName of
                  None \<Rightarrow> Absent
                | Some vs \<Rightarrow>
                    Own (case scp of
                           None \<Rightarrow> vs
                         | Some s \<Rightarrow>
                             if s = [] then vs
                             else filter
                                    (\<lambda>v. s \<in> set (case scope v of
                                                      None \<Rightarrow> [ascii ''block'', ascii ''inserter'']
                                                    | Some declared \<Rightarrow> declared))
                                    vs))"
    by (simp add: getBlockVariations_eq l scopeOrDefault_def split: option.splits)
  have d: "\<exists>found. getDefaultBlockVariation st blockName scp = Inr found \<and>
                  (blockVariations st blockName = None \<longrightarrow> found = None)"
  proof (cases "blockVariations st blockName")
    case None
    have dl: "objectLookup (blockVariations st blockName) blockName = Absent"
      using None l by simp
    have "getDefaultBlockVariation st blockName scp = Inr None"
      by (simp add: getDefaultBlockVariation_eq dl)
    then show ?thesis by simp
  next
    case (Some vs)
    have dl: "objectLookup (blockVariations st blockName) blockName = Own vs"
      using Some l by simp
    have "\<exists>found. getDefaultBlockVariation st blockName scp = Inr found"
      by (simp add: getDefaultBlockVariation_eq dl)
    with Some show ?thesis by simp
  qed
  have t: "\<exists>entries. getBlockTypes st = Inr entries"
    by (simp add: getBlockTypes_eq)
  have g: "getChildBlockNames st blockName =
           map blockType.name
             (filter (\<lambda>bt. case parent bt of None \<Rightarrow> False | Some ps \<Rightarrow> blockName \<in> set ps)
                (objectValues (blockTypes st)))"
    by (rule getChildBlockNames_eq)
  have e: "(getChildBlockNames st blockName = []) =
           (\<forall>bt\<in>set (objectValues (blockTypes st)).
              case parent bt of None \<Rightarrow> True | Some ps \<Rightarrow> blockName \<notin> set ps)"
    by (auto simp: getChildBlockNames_eq filter_empty_conv split: option.splits)
  have c: "hasChildBlocks st blockName = (getChildBlockNames st blockName \<noteq> [])"
    by (simp add: hasChildBlocks_def)
  show ?thesis
    by (intro conjI) (rule a s b y v d t g e c)+
qed

text \<open>
  Nothing is stored for \<^verbatim>\<open>core/nothing\<close>: every selector reports the absence.
\<close>

theorem unregistered_block_queries_witness:
  "getBlockType exampleState (ascii ''core/nothing'') = Absent \<and>
   getBlockSupport exampleHost exampleState (Name (ascii ''core/nothing''))
     (ascii ''inserter'') (JBool True) = JBool True \<and>
   getBlockVariations exampleState (ascii ''core/nothing'') (Some (ascii ''block'')) =
     Inr Absent \<and>
   getDefaultBlockVariation exampleState (ascii ''core/nothing'') (Some (ascii ''block'')) =
     Inr None \<and>
   getChildBlockNames exampleState (ascii ''core/nothing'') = [] \<and>
   \<not> hasChildBlocks exampleState (ascii ''core/nothing'')"
proof -
  have p: "\<forall>bt\<in>set (objectValues (blockTypes exampleState)).
             case parent bt of None \<Rightarrow> True | Some ps \<Rightarrow> ascii ''core/nothing'' \<notin> set ps"
    by (simp add: example_values example_parents) (simp add: ascii_def)
  show ?thesis
    using unregistered_block_queries
            [OF example_nothing(1,2), of exampleHost "ascii ''inserter''" "JBool True"
                "Some (ascii ''block'')"]
          example_nothing(3) p
    by auto
qed

text \<open>
  The claim as stated has every such selector report an absence for every name that is
  not registered. \<^verbatim>\<open>core/missing\<close> is not registered; a registered block type names it
  as its parent, and a variation is stored for it. \<^verbatim>\<open>constructor\<close> is not registered
  either, and nothing is stored under it: \<^verbatim>\<open>getBlockType\<close> returns the inherited
  function, and \<^verbatim>\<open>getBlockVariations\<close> with a scope throws.
\<close>

theorem unregistered_block_queries_counterexample:
  "getBlockType exampleState (ascii ''core/missing'') = Absent \<and>
   getChildBlockNames exampleState (ascii ''core/missing'') = [ascii ''core/orphan''] \<and>
   getBlockVariations exampleState (ascii ''core/missing'') None = Inr (Own [variationA]) \<and>
   map_of (blockTypes exampleState) (ascii ''constructor'') = None \<and>
   blockVariations exampleState (ascii ''constructor'') = None \<and>
   getBlockType exampleState (ascii ''constructor'') = Inherited (JFun 0) \<and>
   getBlockVariations exampleState (ascii ''constructor'') (Some (ascii ''block'')) =
     Inl TypeError"
proof -
  have "getChildBlockNames exampleState (ascii ''core/missing'') = [blockType.name orphanBlock]"
    by (simp add: getChildBlockNames_def objectValues_def exampleState_def lodashIncludes_def
          example_parents)
       (simp add: ascii_def)
  moreover
  have "getBlockVariations exampleState (ascii ''core/missing'') None = Inr (Own [variationA])"
    by (simp add: getBlockVariations_def Let_def truthyString_def example_missing_variations
          objectLookup_own)
  moreover
  have "getBlockType exampleState (ascii ''constructor'') = Inherited (JFun 0)"
    by (simp add: getBlockType_def example_constructor objectLookup_constructor)
  moreover
  have "getBlockVariations exampleState (ascii ''constructor'') (Some (ascii ''block'')) =
          Inl TypeError"
    by (simp add: getBlockVariations_def Let_def example_constructor objectLookup_constructor
          truthyString_def)
       (simp add: ascii_def)
  ultimately show ?thesis
    by (simp add: example_missing example_names example_constructor)
qed

end
